theory Spec2Isabelle
  imports Main
begin

section \<open>Exceptions\<close>

text \<open>
  A raised exception, as the handlers of \<open>export_transactions\<close> tell exceptions apart:
  \<open>OtherException cls text\<close> is an exception of any other class derived from
  \<open>Exception\<close>, with its class name and its \<open>str()\<close> text.
\<close>

datatype pyexc = FileNotFoundError | PermissionError | OtherException string string

section \<open>The settings panel (ui/settings\_panel.py)\<close>

text \<open>
  The part of a \<open>SettingsPanel\<close> object that \<open>toggle_theme\<close> reads and writes.
  \<open>theme_var\<close> is the Tk string variable, \<open>settings_theme\<close> the \<open>theme\<close> attribute of the
  loaded \<open>Settings\<close> row and \<open>saved_theme\<close> the value of that row in the database, which
  \<open>Settings.save()\<close> overwrites with the attribute. The widgets are kept as the values last
  given to them: the appearance mode, the text of the label, the message boxes shown (title
  and text, oldest first) and the number of calls of the refresh callback.
\<close>

record settings_panel =
  theme_var :: string
  settings_theme :: string
  saved_theme :: string
  appearance_mode :: string
  current_theme_label :: string
  has_refresh_callback :: bool
  refresh_calls :: nat
  info_boxes :: "(string \<times> string) list"

definition toggle_theme :: "settings_panel \<Rightarrow> settings_panel" where
  "toggle_theme self =
     (let new_theme = (if theme_var self = ''Light'' then ''Dark'' else ''Light'') in
      self\<lparr>theme_var := new_theme,
           appearance_mode := new_theme,
           settings_theme := new_theme,
           saved_theme := new_theme,
           current_theme_label := ''Current Theme: '' @ new_theme,
           refresh_calls := (if has_refresh_callback self then Suc (refresh_calls self)
                             else refresh_calls self),
           info_boxes := info_boxes self @ [(''Success'', ''Theme changed to '' @ new_theme)]\<rparr>)"

text \<open>
  \<open>toggle_theme\<close> above is a call in which every call the method makes returns. The
  method has no \<open>try\<close>: when \<open>self.settings.save()\<close> raises (line 98), or the refresh
  callback does (line 105), the exception leaves the method and the later lines do not
  run. \<open>toggle_theme_call\<close> is the method with these two outcomes given: it returns the
  exception that left the method, if any, and the panel as the call leaves it.
\<close>

definition toggle_theme_call ::
  "pyexc option \<Rightarrow> pyexc option \<Rightarrow> settings_panel \<Rightarrow> pyexc option \<times> settings_panel" where
  "toggle_theme_call save_error callback_error self =
     (let new_theme = (if theme_var self = ''Light'' then ''Dark'' else ''Light'');
          self1 = self\<lparr>theme_var := new_theme,
                       appearance_mode := new_theme,
                       settings_theme := new_theme\<rparr>
      in case save_error of
           Some x \<Rightarrow> (Some x, self1)
         | None \<Rightarrow>
             (let self2 = self1\<lparr>saved_theme := new_theme,
                               current_theme_label := ''Current Theme: '' @ new_theme\<rparr>;
                  shown = info_boxes self2 @ [(''Success'', ''Theme changed to '' @ new_theme)]
              in if has_refresh_callback self2 then
                   (case callback_error of
                      Some x \<Rightarrow> (Some x, self2\<lparr>refresh_calls := Suc (refresh_calls self2)\<rparr>)
                    | None \<Rightarrow>
                        (None, self2\<lparr>refresh_calls := Suc (refresh_calls self2),
                                     info_boxes := shown\<rparr>))
                 else (None, self2\<lparr>info_boxes := shown\<rparr>)))"

text \<open>The panel as the constructor leaves it for a database row whose theme is \<open>t\<close>.\<close>

definition new_panel :: "string \<Rightarrow> bool \<Rightarrow> settings_panel" where
  "new_panel t cb =
     \<lparr>theme_var = t, settings_theme = t, saved_theme = t, appearance_mode = t,
      current_theme_label = ''Current Theme: '' @ t, has_refresh_callback = cb,
      refresh_calls = 0, info_boxes = []\<rparr>"

section \<open>Exporting transactions (utils/export\_data.py)\<close>

subsection \<open>Records and the world outside\<close>

text \<open>
  A transaction is a Python dict: its items in insertion order (a dict has each key once).
  Keys are strings, and a value is kept as the text the csv writer makes of it: \<open>str(v)\<close>,
  and the empty text for \<open>None\<close>.
\<close>

type_synonym transaction = "(string \<times> string) list"

definition dict_keys :: "transaction \<Rightarrow> string list" where
  "dict_keys d = map fst d"

definition dict_get :: "transaction \<Rightarrow> string \<Rightarrow> string \<Rightarrow> string" where
  "dict_get d key dflt = (case map_of d key of Some v \<Rightarrow> v | None \<Rightarrow> dflt)"

record datetime =
  year :: nat
  month :: nat
  day :: nat
  hour :: nat
  minute :: nat
  second :: nat

text \<open>
  What the function meets outside itself: the clock read by \<open>datetime.now()\<close>, whether
  \<open>open(path, "w")\<close> raises, whether the write of row number \<open>k\<close> (the header is row 0)
  to the file raises, and the text \<open>", ".join(map(repr, wrong_fields))\<close> that
  \<open>csv.DictWriter\<close> puts into its \<open>ValueError\<close> (the order of a Python set is not fixed).
\<close>

record env =
  now :: datetime
  open_error :: "string \<Rightarrow> pyexc option"
  write_error :: "string \<Rightarrow> nat \<Rightarrow> pyexc option"
  repr_join :: "string list \<Rightarrow> string"

text \<open>
  The state a call can touch: the contents of the files, by path, and the list object
  the caller passes as \<open>transactions\<close>.
\<close>

record world =
  files :: "string \<rightharpoonup> string"
  transactions :: "transaction list"

subsection \<open>The timestamped default file name\<close>

definition digit_char :: "nat \<Rightarrow> char" where
  "digit_char d = char_of (48 + d)"

fun str_nat :: "nat \<Rightarrow> string" where
  "str_nat n = (if n < 10 then [digit_char n] else str_nat (n div 10) @ [digit_char (n mod 10)])"

declare str_nat.simps [simp del]

definition zfill :: "nat \<Rightarrow> string \<Rightarrow> string" where
  "zfill width s = replicate (width - length s) (CHR ''0'') @ s"

text \<open>
  \<open>strftime("%Y%m%d_%H%M%S")\<close> as the C library formats it: \<open>%Y\<close> is the year in decimal
  with no padding, so a year below 1000 has fewer than four digits; the other directives
  are two digits, padded with a zero.
\<close>

definition strftime :: "datetime \<Rightarrow> string" where
  "strftime dt =
     str_nat (year dt) @ zfill 2 (str_nat (month dt)) @ zfill 2 (str_nat (day dt))
     @ ''_''
     @ zfill 2 (str_nat (hour dt)) @ zfill 2 (str_nat (minute dt)) @ zfill 2 (str_nat (second dt))"

definition default_file_path :: "env \<Rightarrow> string" where
  "default_file_path e = ''transactions_export_'' @ strftime (now e) @ ''.csv''"

text \<open>Lines 18 to 21: \<open>not file_path\<close> holds for \<open>None\<close> and for the empty string.\<close>

definition resolve_file_path :: "env \<Rightarrow> string option \<Rightarrow> string" where
  "resolve_file_path e file_path =
     (case file_path of
        None \<Rightarrow> default_file_path e
      | Some p \<Rightarrow> if p = [] then default_file_path e else p)"

subsection \<open>The csv writer (excel dialect)\<close>

definition delimiter :: char where
  "delimiter = CHR '',''"

definition quotechar :: char where
  "quotechar = CHR 0x22"

definition lineterminator :: string where
  "lineterminator = [CHR 0x0D, CHR 0x0A]"

definition restval :: string where
  "restval = []"

definition needs_quotes :: "string \<Rightarrow> bool" where
  "needs_quotes field =
     list_ex (\<lambda>c. c = delimiter \<or> c = quotechar \<or> c \<in> set lineterminator) field"

text \<open>One field under \<open>QUOTE_MINIMAL\<close> with \<open>doublequote\<close>.\<close>

definition join_append :: "string \<Rightarrow> string" where
  "join_append field =
     (let body = concat (map (\<lambda>c. if c = quotechar then [quotechar, c] else [c]) field) in
      if needs_quotes field then quotechar # body @ [quotechar] else body)"

fun join_fields :: "string list \<Rightarrow> string" where
  "join_fields [] = []"
| "join_fields [f] = join_append f"
| "join_fields (f # fs) = join_append f @ delimiter # join_fields fs"

text \<open>A row without its terminator; a row that is one empty field is written quoted.\<close>

definition csv_line :: "string list \<Rightarrow> string" where
  "csv_line row = (if row = [[]] then [quotechar, quotechar] else join_fields row)"

definition csv_record :: "string list \<Rightarrow> string" where
  "csv_record row = csv_line row @ lineterminator"

text \<open>
  \<open>DictWriter._dict_to_list\<close> with \<open>extrasaction="raise"\<close>: a key outside the field names
  is a \<open>ValueError\<close>, a missing key gives \<open>restval\<close>.
\<close>

definition dict_to_list :: "env \<Rightarrow> string list \<Rightarrow> transaction \<Rightarrow> pyexc + string list" where
  "dict_to_list e fieldnames rowdict =
     (let wrong_fields = filter (\<lambda>k. k \<notin> set fieldnames) (dict_keys rowdict) in
      if wrong_fields \<noteq> []
      then Inl (OtherException ''ValueError''
                 (''dict contains fields not in fieldnames: '' @ repr_join e wrong_fields))
      else Inr (map (\<lambda>key. dict_get rowdict key restval) fieldnames))"

subsection \<open>Steps on the world\<close>

text \<open>
  A step returns the exception it raised, if any, and the world it leaves.
  Opening for writing creates or truncates the file.
\<close>

definition open_w :: "env \<Rightarrow> string \<Rightarrow> world \<Rightarrow> pyexc option \<times> world" where
  "open_w e path w =
     (case open_error e path of
        Some x \<Rightarrow> (Some x, w)
      | None \<Rightarrow> (None, w\<lparr>files := (files w)(path \<mapsto> [])\<rparr>))"

definition file_content :: "world \<Rightarrow> string \<Rightarrow> string" where
  "file_content w path = (case files w path of Some c \<Rightarrow> c | None \<Rightarrow> [])"

definition file_write :: "env \<Rightarrow> string \<Rightarrow> nat \<Rightarrow> string \<Rightarrow> world \<Rightarrow> pyexc option \<times> world" where
  "file_write e path k s w =
     (case write_error e path k of
        Some x \<Rightarrow> (Some x, w)
      | None \<Rightarrow> (None, w\<lparr>files := (files w)(path \<mapsto> file_content w path @ s)\<rparr>))"

definition writerow ::
  "env \<Rightarrow> string \<Rightarrow> string list \<Rightarrow> nat \<Rightarrow> transaction \<Rightarrow> world \<Rightarrow> pyexc option \<times> world" where
  "writerow e path fieldnames k rowdict w =
     (case dict_to_list e fieldnames rowdict of
        Inl x \<Rightarrow> (Some x, w)
      | Inr row \<Rightarrow> file_write e path k (csv_record row) w)"

text \<open>\<open>writeheader\<close> writes the row \<open>dict(zip(fieldnames, fieldnames))\<close>.\<close>

definition writeheader ::
  "env \<Rightarrow> string \<Rightarrow> string list \<Rightarrow> world \<Rightarrow> pyexc option \<times> world" where
  "writeheader e path fieldnames w = writerow e path fieldnames 0 (zip fieldnames fieldnames) w"

fun writerows ::
  "env \<Rightarrow> string \<Rightarrow> string list \<Rightarrow> nat \<Rightarrow> transaction list \<Rightarrow> world \<Rightarrow> pyexc option \<times> world" where
  "writerows e path fieldnames k [] w = (None, w)"
| "writerows e path fieldnames k (rowdict # rowdicts) w =
     (case writerow e path fieldnames k rowdict w of
        (Some x, w') \<Rightarrow> (Some x, w')
      | (None, w') \<Rightarrow> writerows e path fieldnames (Suc k) rowdicts w')"

subsection \<open>export\_transactions\<close>

text \<open>
  Lines 24 to 34, the body of the \<open>try\<close>: the file is opened first, then the list is
  tested, then the header and the rows are written. \<open>Inl\<close> is an exception leaving the block.
\<close>

definition try_block :: "env \<Rightarrow> string \<Rightarrow> world \<Rightarrow> (pyexc + bool \<times> string) \<times> world" where
  "try_block e file_path w =
     (case open_w e file_path w of
        (Some x, w1) \<Rightarrow> (Inl x, w1)
      | (None, w1) \<Rightarrow>
          (case transactions w1 of
             [] \<Rightarrow> (Inr (False, ''No transactions to export''), w1)
           | first # _ \<Rightarrow>
               (let fieldnames = dict_keys first in
                case writeheader e file_path fieldnames w1 of
                  (Some x, w2) \<Rightarrow> (Inl x, w2)
                | (None, w2) \<Rightarrow>
                    (case writerows e file_path fieldnames 1 (transactions w2) w2 of
                       (Some x, w3) \<Rightarrow> (Inl x, w3)
                     | (None, w3) \<Rightarrow> (Inr (True, file_path), w3)))))"

text \<open>Lines 35 to 42: the three handlers, in the order of the source.\<close>

definition handle :: "string \<Rightarrow> pyexc \<Rightarrow> bool \<times> string" where
  "handle file_path x =
     (case x of
        FileNotFoundError \<Rightarrow>
          (False, ''Error: The directory for '' @ [CHR 0x27] @ file_path @ [CHR 0x27] @ '' does not exist.'')
      | PermissionError \<Rightarrow>
          (False, ''Error: Permission denied to write to '' @ [CHR 0x27] @ file_path @ [CHR 0x27] @ ''.'')
      | OtherException cls text \<Rightarrow>
          (False, ''Error exporting transactions: '' @ cls @ '': '' @ text))"

definition export_transactions ::
  "env \<Rightarrow> world \<Rightarrow> string option \<Rightarrow> (pyexc + bool \<times> string) \<times> world" where
  "export_transactions e w file_path =
     (let path = resolve_file_path e file_path in
      case try_block e path w of
        (Inl x, w') \<Rightarrow> (Inr (handle path x), w')
      | (Inr r, w') \<Rightarrow> (Inr r, w'))"

subsection \<open>Reading the results\<close>




text \<open>The pattern \<open>transactions_export_<YYYYMMDD_HHMMSS>.csv\<close> and the time it spells.\<close>

definition is_digit :: "char \<Rightarrow> bool" where
  "is_digit c = (48 \<le> (of_char c :: nat) \<and> (of_char c :: nat) \<le> 57)"

definition is_timestamp :: "string \<Rightarrow> bool" where
  "is_timestamp s =
     (length s = 15 \<and> list_all is_digit (take 8 s) \<and> s ! 8 = CHR ''_''
      \<and> list_all is_digit (drop 9 s))"

definition matches_pattern :: "string \<Rightarrow> bool" where
  "matches_pattern p =
     (take 20 p = ''transactions_export_'' \<and> is_timestamp (take 15 (drop 20 p))
      \<and> drop 35 p = ''.csv'')"

definition digit_val :: "char \<Rightarrow> nat" where
  "digit_val c = of_char c - 48"

definition nat_of_digits :: "string \<Rightarrow> nat" where
  "nat_of_digits s = foldl (\<lambda>a c. 10 * a + digit_val c) 0 s"

definition parse_timestamp :: "string \<Rightarrow> datetime" where
  "parse_timestamp s =
     \<lparr>year = nat_of_digits (take 4 s),
      month = nat_of_digits (take 2 (drop 4 s)),
      day = nat_of_digits (take 2 (drop 6 s)),
      hour = nat_of_digits (take 2 (drop 9 s)),
      minute = nat_of_digits (take 2 (drop 11 s)),
      second = nat_of_digits (take 2 (drop 13 s))\<rparr>"

text \<open>The ranges of the fields of a Python \<open>datetime\<close>.\<close>

definition valid_datetime :: "datetime \<Rightarrow> bool" where
  "valid_datetime dt =
     (1 \<le> year dt \<and> year dt \<le> 9999 \<and> 1 \<le> month dt \<and> month dt \<le> 12
      \<and> 1 \<le> day dt \<and> day dt \<le> 31 \<and> hour dt < 24 \<and> minute dt < 60 \<and> second dt < 60)"


subsection \<open>Concrete surroundings for the examples\<close>

definition sample_time :: datetime where
  "sample_time = \<lparr>year = 2024, month = 3, day = 5, hour = 14, minute = 7, second = 9\<rparr>"

text \<open>Every open and every write succeeds.\<close>

definition calm_env :: env where
  "calm_env =
     \<lparr>now = sample_time, open_error = (\<lambda>path. None), write_error = (\<lambda>path k. None),
      repr_join = concat\<rparr>"

text \<open>Every open raises \<open>x\<close>.\<close>

definition closed_env :: "pyexc \<Rightarrow> env" where
  "closed_env x = calm_env\<lparr>open_error := (\<lambda>path. Some x)\<rparr>"


definition fresh_world :: "transaction list \<Rightarrow> world" where
  "fresh_world ts = \<lparr>files = (\<lambda>path. None), transactions = ts\<rparr>"

definition two_rows :: "transaction list" where
  "two_rows =
     [[(''Date'', ''2024-01-31''), (''Category'', ''Food''), (''Description'', ''bread, milk''),
       (''Amount'', ''12.50''), (''Type'', ''Expense'')],
      [(''Date'', ''2024-02-01''), (''Category'', ''Salary''), (''Description'', []),
       (''Amount'', ''1000.00''), (''Type'', ''Income'')]]"


text \<open>Two records, the second with a key that the first does not have.\<close>

definition extra_key_rows :: "transaction list" where
  "extra_key_rows =
     [[(''Date'', ''2024-01-31''), (''Amount'', ''12.50'')],
      [(''Date'', ''2024-02-01''), (''Amount'', ''3.00''), (''Note'', ''late'')]]"

section \<open>What a call leaves alone\<close>

lemma open_w_transactions: "transactions (snd (open_w e p w)) = transactions w"
  by (simp add: open_w_def split: option.splits)

lemma file_write_transactions: "transactions (snd (file_write e p k s w)) = transactions w"
  by (simp add: file_write_def split: option.splits)

lemma writerow_transactions: "transactions (snd (writerow e p fn k r w)) = transactions w"
  by (simp add: writerow_def file_write_transactions split: sum.splits)

lemma writerows_transactions: "transactions (snd (writerows e p fn k rs w)) = transactions w"
proof (induction rs arbitrary: k w)
  case Nil
  show ?case by simp
next
  case (Cons r rs)
  show ?case
  proof (cases "writerow e p fn k r w")
    case (Pair x w')
    have w': "transactions w' = transactions w"
      using writerow_transactions [of e p fn k r w] Pair by simp
    show ?thesis
    proof (cases x)
      case None
      with Pair Cons.IH [of "Suc k" w'] w' show ?thesis by simp
    next
      case (Some a)
      with Pair w' show ?thesis by simp
    qed
  qed
qed

lemma try_block_transactions: "transactions (snd (try_block e p w)) = transactions w"
proof (cases "open_w e p w")
  case (Pair x w1)
  have w1: "transactions w1 = transactions w"
    using open_w_transactions [of e p w] Pair by simp
  show ?thesis
  proof (cases x)
    case (Some a)
    with Pair w1 show ?thesis by (simp add: try_block_def)
  next
    case None
    show ?thesis
    proof (cases "transactions w1")
      case Nil
      with Pair None w1 show ?thesis by (simp add: try_block_def)
    next
      case (Cons t ts)
      obtain y w2 where h: "writeheader e p (dict_keys t) w1 = (y, w2)" by force
      have w2: "transactions w2 = transactions w"
        using writerow_transactions [of e p "dict_keys t" 0 "zip (dict_keys t) (dict_keys t)" w1] h w1
        by (simp add: writeheader_def)
      obtain z w3 where r: "writerows e p (dict_keys t) 1 (transactions w2) w2 = (z, w3)" by force
      have w3: "transactions w3 = transactions w"
        using writerows_transactions [of e p "dict_keys t" 1 "transactions w2" w2] r w2 by simp
      from Pair None Cons h r w2 w3 show ?thesis
        by (cases y; cases z) (simp_all add: try_block_def Let_def)
    qed
  qed
qed

text \<open>No step touches a file other than the one it was given.\<close>

lemma open_w_files_other: "q \<noteq> p \<Longrightarrow> files (snd (open_w e p w)) q = files w q"
  by (simp add: open_w_def split: option.splits)

lemma file_write_files_other: "q \<noteq> p \<Longrightarrow> files (snd (file_write e p k s w)) q = files w q"
  by (simp add: file_write_def split: option.splits)

lemma writerow_files_other: "q \<noteq> p \<Longrightarrow> files (snd (writerow e p fn k r w)) q = files w q"
  by (simp add: writerow_def file_write_files_other split: sum.splits)

lemma writerows_files_other:
  "q \<noteq> p \<Longrightarrow> files (snd (writerows e p fn k rs w)) q = files w q"
proof (induction rs arbitrary: k w)
  case Nil
  show ?case by simp
next
  case (Cons r rs)
  obtain x w' where s: "writerow e p fn k r w = (x, w')" by force
  have w': "files w' q = files w q"
    using writerow_files_other [OF Cons.prems, of e fn k r w] s by simp
  show ?case
  proof (cases x)
    case None
    with s Cons.IH [OF Cons.prems, of "Suc k" w'] w' show ?thesis by simp
  next
    case (Some a)
    with s w' show ?thesis by simp
  qed
qed

lemma try_block_files_other:
  assumes "q \<noteq> p"
  shows "files (snd (try_block e p w)) q = files w q"
proof -
  obtain x w1 where o: "open_w e p w = (x, w1)" by force
  have w1: "files w1 q = files w q"
    using open_w_files_other [OF assms, of e w] o by simp
  show ?thesis
  proof (cases x)
    case (Some a)
    with o w1 show ?thesis by (simp add: try_block_def)
  next
    case None
    show ?thesis
    proof (cases "transactions w1")
      case Nil
      with o None w1 show ?thesis by (simp add: try_block_def)
    next
      case (Cons t ts)
      obtain y w2 where h: "writeheader e p (dict_keys t) w1 = (y, w2)" by force
      have w2: "files w2 q = files w q"
        using writerow_files_other [OF assms, of e "dict_keys t" 0 "zip (dict_keys t) (dict_keys t)" w1]
          h w1
        by (simp add: writeheader_def)
      obtain z w3 where r: "writerows e p (dict_keys t) 1 (transactions w2) w2 = (z, w3)" by force
      have w3: "files w3 q = files w q"
        using writerows_files_other [OF assms, of e "dict_keys t" 1 "transactions w2" w2] r w2
        by simp
      from o None Cons h r w3 show ?thesis
        by (cases y; cases z) (simp_all add: try_block_def Let_def w2)
    qed
  qed
qed

lemma export_files_other:
  assumes "q \<noteq> resolve_file_path e file_path"
  shows "files (snd (export_transactions e w file_path)) q = files w q"
proof -
  obtain r w' where t: "try_block e (resolve_file_path e file_path) w = (r, w')" by force
  have "files w' q = files w q"
    using try_block_files_other [OF assms, of e w] t by simp
  with t show ?thesis
    by (cases r) (simp_all add: export_transactions_def Let_def)
qed

section \<open>How the try block ends\<close>

lemma try_block_open_raises:
  "open_error e p = Some x \<Longrightarrow> try_block e p w = (Inl x, w)"
  by (simp add: try_block_def open_w_def)

lemma try_block_empty:
  "open_error e p = None \<Longrightarrow> transactions w = [] \<Longrightarrow>
   try_block e p w = (Inr (False, ''No transactions to export''), w\<lparr>files := (files w)(p \<mapsto> [])\<rparr>)"
  by (simp add: try_block_def open_w_def)

lemma map_of_zip_same: "k \<in> set xs \<Longrightarrow> map_of (zip xs xs) k = Some k"
  by (induction xs) auto

lemma header_dict_to_list: "dict_to_list e fn (zip fn fn) = Inr fn"
proof -
  have "filter (\<lambda>k. k \<notin> set fn) (dict_keys (zip fn fn)) = []"
    by (simp add: dict_keys_def filter_empty_conv)
  moreover have "map (\<lambda>key. dict_get (zip fn fn) key restval) fn = fn"
    by (rule map_idI) (simp add: dict_get_def map_of_zip_same)
  ultimately show ?thesis by (simp add: dict_to_list_def)
qed

lemma try_block_header_raises:
  "open_error e p = None \<Longrightarrow> transactions w \<noteq> [] \<Longrightarrow> write_error e p 0 = Some x \<Longrightarrow>
   fst (try_block e p w) = Inl x"
  by (cases "transactions w")
     (simp_all add: try_block_def open_w_def writeheader_def writerow_def header_dict_to_list
        file_write_def Let_def)

lemma try_block_returns:
  "fst (try_block e p w) = Inr (ok, m) \<Longrightarrow>
   (ok \<and> m = p) \<or> (\<not> ok \<and> m = ''No transactions to export'')"
  by (auto simp: try_block_def Let_def split: prod.splits option.splits list.splits)

section \<open>The timestamp\<close>

lemma digit_char_0: "digit_char 0 = CHR ''0''"
  by code_simp

lemma of_char_digit: "d < 10 \<Longrightarrow> (of_char (digit_char d) :: nat) = 48 + d"
  by (simp add: digit_char_def)

lemma is_digit_digit_char: "d < 10 \<Longrightarrow> is_digit (digit_char d)"
  by (simp add: is_digit_def of_char_digit)

lemma digit_val_digit_char: "d < 10 \<Longrightarrow> digit_val (digit_char d) = d"
  by (simp add: digit_val_def of_char_digit)

lemma str_nat_1: "n < 10 \<Longrightarrow> str_nat n = [digit_char n]"
  by (simp add: str_nat.simps [of n])

lemma str_nat_2: "10 \<le> n \<Longrightarrow> n < 100 \<Longrightarrow> str_nat n = [digit_char (n div 10), digit_char (n mod 10)]"
  by (simp add: str_nat.simps [of n] str_nat_1)

lemma str_nat_3:
  "100 \<le> n \<Longrightarrow> n < 1000 \<Longrightarrow>
   str_nat n = [digit_char (n div 100), digit_char (n div 10 mod 10), digit_char (n mod 10)]"
  by (simp add: str_nat.simps [of n] str_nat_2 div_mult2_eq [symmetric])

lemma str_nat_4:
  "1000 \<le> n \<Longrightarrow> n < 10000 \<Longrightarrow>
   str_nat n = [digit_char (n div 1000), digit_char (n div 100 mod 10),
                digit_char (n div 10 mod 10), digit_char (n mod 10)]"
  by (simp add: str_nat.simps [of n] str_nat_3 div_mult2_eq [symmetric])

lemma zfill2:
  assumes "n < 100"
  shows "zfill 2 (str_nat n) = [digit_char (n div 10), digit_char (n mod 10)]"
proof (cases "n < 10")
  case True
  then show ?thesis by (simp add: zfill_def str_nat_1 digit_char_0)
next
  case False
  with assms show ?thesis by (simp add: zfill_def str_nat_2)
qed

lemma strftime_valid:
  assumes "valid_datetime dt" and "1000 \<le> year dt"
  shows "strftime dt =
    [digit_char (year dt div 1000), digit_char (year dt div 100 mod 10),
     digit_char (year dt div 10 mod 10), digit_char (year dt mod 10),
     digit_char (month dt div 10), digit_char (month dt mod 10),
     digit_char (day dt div 10), digit_char (day dt mod 10),
     CHR ''_'',
     digit_char (hour dt div 10), digit_char (hour dt mod 10),
     digit_char (minute dt div 10), digit_char (minute dt mod 10),
     digit_char (second dt div 10), digit_char (second dt mod 10)]"
proof -
  from assms have "year dt < 10000" "month dt < 100" "day dt < 100" "hour dt < 100"
    "minute dt < 100" "second dt < 100"
    by (simp_all add: valid_datetime_def)
  with assms(2) show ?thesis by (simp add: strftime_def zfill2 str_nat_4)
qed

lemma digits2: "10 * (n div 10) + n mod 10 = (n::nat)"
  by simp

lemma digits4:
  "10 * (10 * (10 * (n div 1000) + n div 100 mod 10) + n div 10 mod 10) + n mod 10 = (n::nat)"
proof -
  have a: "n div 100 = n div 10 div 10" and b: "n div 1000 = n div 100 div 10"
    by (simp_all add: div_mult2_eq [symmetric])
  have "10 * (n div 1000) + n div 100 mod 10 = n div 100"
    unfolding b by simp
  moreover have "10 * (n div 100) + n div 10 mod 10 = n div 10"
    unfolding a by simp
  ultimately show ?thesis by simp
qed

lemma digits4_flat:
  "1000 * (n div 1000) + 100 * (n div 100 mod 10) + 10 * (n div 10 mod 10) + n mod 10 = (n::nat)"
  using digits4 [of n] by simp

lemma div10_lt: "(n::nat) < 100 \<Longrightarrow> n div 10 < 10"
  by (simp add: div_less_iff_less_mult)

lemma div1000_lt: "(n::nat) < 10000 \<Longrightarrow> n div 1000 < 10"
  by (simp add: div_less_iff_less_mult)

lemma valid_datetime_bounds:
  assumes "valid_datetime dt"
  shows "year dt < 10000" "month dt < 100" "day dt < 100" "hour dt < 100"
    "minute dt < 100" "second dt < 100"
  using assms by (simp_all add: valid_datetime_def)

lemma is_timestamp_strftime:
  assumes "valid_datetime dt" and "1000 \<le> year dt"
  shows "is_timestamp (strftime dt)"
proof -
  note b = valid_datetime_bounds [OF assms(1)]
  show ?thesis
    by (simp add: strftime_valid [OF assms] is_timestamp_def is_digit_digit_char
          div10_lt div1000_lt b)
qed

lemma parse_timestamp_strftime:
  assumes "valid_datetime dt" and "1000 \<le> year dt"
  shows "parse_timestamp (strftime dt) = dt"
proof -
  note b = valid_datetime_bounds [OF assms(1)]
  show ?thesis
    by (simp add: strftime_valid [OF assms] parse_timestamp_def nat_of_digits_def
          digit_val_digit_char digits2 digits4_flat div10_lt div1000_lt b)
qed

section \<open>The rows written\<close>

lemma dict_to_list_ok:
  assumes "set (dict_keys r) \<subseteq> set fn"
  shows "dict_to_list e fn r = Inr (map (\<lambda>key. dict_get r key restval) fn)"
proof -
  from assms have "filter (\<lambda>k. k \<notin> set fn) (dict_keys r) = []"
    by (auto simp: filter_empty_conv)
  then show ?thesis by (simp add: dict_to_list_def)
qed











section \<open>Where the rows stop\<close>

lemma writerow_fst:
  "fst (writerow e p fn k r w) =
     (case dict_to_list e fn r of Inl x \<Rightarrow> Some x | Inr row \<Rightarrow> write_error e p k)"
  by (simp add: writerow_def file_write_def split: sum.splits option.splits)

lemma writerow_none_iff:
  "fst (writerow e p fn k r w) = None
     \<longleftrightarrow> set (dict_keys r) \<subseteq> set fn \<and> write_error e p k = None"
proof (cases "set (dict_keys r) \<subseteq> set fn")
  case True
  then show ?thesis by (simp add: writerow_fst dict_to_list_ok)
next
  case False
  then have "filter (\<lambda>k. k \<notin> set fn) (dict_keys r) \<noteq> []"
    by (auto simp: filter_empty_conv)
  with False show ?thesis by (simp add: writerow_fst dict_to_list_def)
qed




text \<open>\<open>writerows\<close> returns only when every row of the list went through.\<close>

lemma writerows_none:
  assumes "fst (writerows e p fn k rs w) = None"
  shows "\<forall>j<length rs. set (dict_keys (rs ! j)) \<subseteq> set fn \<and> write_error e p (k + j) = None"
  using assms
proof (induction rs arbitrary: k w)
  case Nil
  show ?case by simp
next
  case (Cons r rs)
  obtain y w1 where s: "writerow e p fn k r w = (y, w1)" by force
  with Cons.prems have y: "y = None"
    by (cases y) simp_all
  with s have "fst (writerow e p fn k r w) = None" by simp
  then have hd: "set (dict_keys r) \<subseteq> set fn \<and> write_error e p k = None"
    by (simp add: writerow_none_iff)
  from Cons.prems s y have "fst (writerows e p fn (Suc k) rs w1) = None" by simp
  from Cons.IH [OF this]
  have tl: "\<forall>j<length rs. set (dict_keys (rs ! j)) \<subseteq> set fn \<and> write_error e p (Suc k + j) = None" .
  show ?case
  proof (intro allI impI)
    fix j assume "j < length (r # rs)"
    then show "set (dict_keys ((r # rs) ! j)) \<subseteq> set fn \<and> write_error e p (k + j) = None"
      using hd tl by (cases j) simp_all
  qed
qed

text \<open>
  With the file open and a first record \<open>t\<close>, the block ends as the header and then
  \<open>writerows\<close> end.
\<close>

lemma try_block_header_ok:
  assumes "open_error e p = None" and "transactions w = t # ts" and "write_error e p 0 = None"
  shows "\<exists>w2. fst (try_block e p w) =
     (case fst (writerows e p (dict_keys t) 1 (t # ts) w2) of
        Some x \<Rightarrow> Inl x
      | None \<Rightarrow> Inr (True, p))"
proof -
  let ?w1 = "w\<lparr>files := (files w)(p \<mapsto> [])\<rparr>"
  let ?w2 = "?w1\<lparr>files := (files ?w1)(p \<mapsto> csv_record (dict_keys t))\<rparr>"
  have o: "open_w e p w = (None, ?w1)"
    by (simp add: open_w_def assms(1))
  have h: "writeheader e p (dict_keys t) ?w1 = (None, ?w2)"
    by (simp add: writeheader_def writerow_def header_dict_to_list file_write_def
          file_content_def assms(3))
  have "fst (try_block e p w) =
     (case fst (writerows e p (dict_keys t) 1 (t # ts) ?w2) of
        Some x \<Rightarrow> Inl x
      | None \<Rightarrow> Inr (True, p))"
    unfolding try_block_def o
    by (simp add: assms(2) h Let_def split: prod.splits option.splits del: writerows.simps)
  then show ?thesis by blast
qed

lemma try_block_true:
  assumes "fst (try_block e p w) = Inr (True, m)"
  shows "m = p \<and> open_error e p = None \<and> transactions w \<noteq> []
     \<and> (\<forall>k\<le>length (transactions w). write_error e p k = None)
     \<and> (\<forall>r\<in>set (transactions w). set (dict_keys r) \<subseteq> set (dict_keys (hd (transactions w))))"
proof -
  have op: "open_error e p = None"
  proof (cases "open_error e p")
    case (Some x)
    with assms show ?thesis by (simp add: try_block_open_raises)
  qed simp
  have ne: "transactions w \<noteq> []"
  proof
    assume "transactions w = []"
    with op assms show False by (simp add: try_block_empty)
  qed
  then obtain t ts where tx: "transactions w = t # ts"
    by (cases "transactions w") auto
  have w0: "write_error e p 0 = None"
  proof (cases "write_error e p 0")
    case (Some x)
    from try_block_header_raises [OF op ne Some] assms show ?thesis by simp
  qed simp
  from try_block_header_ok [OF op tx w0] obtain w2 where
    r: "fst (try_block e p w) =
     (case fst (writerows e p (dict_keys t) 1 (t # ts) w2) of
        Some x \<Rightarrow> Inl x
      | None \<Rightarrow> Inr (True, p))"
    by blast
  define y where "y = fst (writerows e p (dict_keys t) 1 (t # ts) w2)"
  from r assms have "(case y of Some x \<Rightarrow> Inl x | None \<Rightarrow> Inr (True, p)) = Inr (True, m)"
    unfolding y_def by (simp only:)
  then have "y = None \<and> m = p"
    by (cases y) simp_all
  then have none: "fst (writerows e p (dict_keys t) 1 (t # ts) w2) = None" and m: "m = p"
    unfolding y_def by simp_all
  note all = writerows_none [OF none]
  have writes: "\<forall>k\<le>length (transactions w). write_error e p k = None"
  proof (intro allI impI)
    fix k assume k: "k \<le> length (transactions w)"
    show "write_error e p k = None"
    proof (cases k)
      case 0
      with w0 show ?thesis by simp
    next
      case (Suc j)
      with k tx have "j < length (t # ts)" by simp
      with all have "write_error e p (1 + j) = None" by blast
      with Suc show ?thesis by simp
    qed
  qed
  have keys: "\<forall>r\<in>set (transactions w). set (dict_keys r) \<subseteq> set (dict_keys (hd (transactions w)))"
  proof
    fix r assume "r \<in> set (transactions w)"
    then obtain j where "j < length (t # ts)" "(t # ts) ! j = r"
      unfolding tx in_set_conv_nth by blast
    with all tx show "set (dict_keys r) \<subseteq> set (dict_keys (hd (transactions w)))"
      by auto
  qed
  from m op ne writes keys show ?thesis by simp
qed

lemma export_true:
  assumes "fst (export_transactions e w file_path) = Inr (True, m)"
  shows "fst (try_block e (resolve_file_path e file_path) w) = Inr (True, m)"
proof -
  obtain r w' where t: "try_block e (resolve_file_path e file_path) w = (r, w')" by force
  show ?thesis
  proof (cases r)
    case (Inl x)
    with t assms show ?thesis
      by (cases x) (simp_all add: export_transactions_def handle_def Let_def)
  next
    case (Inr b)
    with t assms show ?thesis
      by (simp add: export_transactions_def Let_def)
  qed
qed




section \<open>Theorems about export\_transactions\<close>




text \<open>
  C2: for every list and every path the call ends by returning a pair of a boolean and a
  message, never by raising. Every failure is returned with the flag \<open>False\<close>: that is so
  whenever the open raises, the list is empty, the write of the header or of a record
  raises, or a record has a key that is not a field name. A failure message is the
  "no transactions" text or one of the three texts of the handlers, and a failing open
  with \<open>FileNotFoundError\<close> (a path in a directory that does not exist) gives the failure
  return with the first of them, the world as it was.
\<close>

theorem export_never_raises:
  "(\<exists>ok msg. fst (export_transactions e w file_path) = Inr (ok, msg))
   \<and> (open_error e (resolve_file_path e file_path) \<noteq> None
        \<or> transactions w = []
        \<or> (\<exists>k\<le>length (transactions w). write_error e (resolve_file_path e file_path) k \<noteq> None)
        \<or> (\<exists>r\<in>set (transactions w).
              \<not> set (dict_keys r) \<subseteq> set (dict_keys (hd (transactions w))))
       \<longrightarrow> (\<exists>msg. fst (export_transactions e w file_path) = Inr (False, msg)))
   \<and> (\<forall>msg. fst (export_transactions e w file_path) = Inr (False, msg) \<longrightarrow>
         msg = ''No transactions to export''
       \<or> msg = ''Error: The directory for '' @ [CHR 0x27] @ resolve_file_path e file_path
                 @ [CHR 0x27] @ '' does not exist.''
       \<or> msg = ''Error: Permission denied to write to '' @ [CHR 0x27]
                 @ resolve_file_path e file_path @ [CHR 0x27] @ ''.''
       \<or> (\<exists>cls str_e. msg = ''Error exporting transactions: '' @ cls @ '': '' @ str_e))
   \<and> (open_error e (resolve_file_path e file_path) = Some FileNotFoundError \<longrightarrow>
        export_transactions e w file_path =
          (Inr (False, ''Error: The directory for '' @ [CHR 0x27] @ resolve_file_path e file_path
                  @ [CHR 0x27] @ '' does not exist.''), w))"
proof -
  let ?p = "resolve_file_path e file_path"
  obtain r w' where t: "try_block e ?p w = (r, w')" by force
  have first: "\<exists>ok msg. fst (export_transactions e w file_path) = Inr (ok, msg)"
    using t by (cases r) (auto simp: export_transactions_def Let_def)
  have flag: "\<exists>msg. fst (export_transactions e w file_path) = Inr (False, msg)"
    if bad: "open_error e ?p \<noteq> None
        \<or> transactions w = []
        \<or> (\<exists>k\<le>length (transactions w). write_error e ?p k \<noteq> None)
        \<or> (\<exists>r\<in>set (transactions w).
              \<not> set (dict_keys r) \<subseteq> set (dict_keys (hd (transactions w))))"
  proof -
    from first obtain ok msg where res: "fst (export_transactions e w file_path) = Inr (ok, msg)"
      by blast
    have "\<not> ok"
    proof
      assume ok
      with res have "fst (try_block e ?p w) = Inr (True, msg)"
        by (simp add: export_true)
      from try_block_true [OF this] bad show False by auto
    qed
    with res show ?thesis by auto
  qed
  have second: "\<forall>msg. fst (export_transactions e w file_path) = Inr (False, msg) \<longrightarrow>
         msg = ''No transactions to export''
       \<or> msg = ''Error: The directory for '' @ [CHR 0x27] @ ?p @ [CHR 0x27] @ '' does not exist.''
       \<or> msg = ''Error: Permission denied to write to '' @ [CHR 0x27] @ ?p @ [CHR 0x27] @ ''.''
       \<or> (\<exists>cls str_e. msg = ''Error exporting transactions: '' @ cls @ '': '' @ str_e)"
  proof (cases r)
    case (Inl x)
    show ?thesis
    proof (cases x)
      case (OtherException cls m)
      with t Inl have "fst (export_transactions e w file_path)
          = Inr (False, ''Error exporting transactions: '' @ cls @ '': '' @ m)"
        by (simp add: export_transactions_def handle_def Let_def)
      then show ?thesis by auto
    qed (use t Inl in \<open>simp_all add: export_transactions_def handle_def Let_def\<close>)
  next
    case (Inr b)
    obtain ok m where b: "b = (ok, m)" by force
    from t Inr b have "fst (try_block e ?p w) = Inr (ok, m)" by simp
    from try_block_returns [OF this] t Inr b show ?thesis
      by (auto simp: export_transactions_def Let_def)
  qed
  have third: "open_error e ?p = Some FileNotFoundError \<longrightarrow>
        export_transactions e w file_path =
          (Inr (False, ''Error: The directory for '' @ [CHR 0x27] @ ?p @ [CHR 0x27]
                  @ '' does not exist.''), w)"
    by (simp add: export_transactions_def try_block_open_raises handle_def Let_def)
  from first flag second third show ?thesis by blast
qed

text \<open>
  The theorem where the directory \<open>missing\<close> does not exist, and where the second of
  two records has a key of its own.
\<close>

theorem export_never_raises_witness:
  "open_error (closed_env FileNotFoundError)
      (resolve_file_path (closed_env FileNotFoundError) (Some ''missing/out.csv''))
     = Some FileNotFoundError
   \<and> export_transactions (closed_env FileNotFoundError) (fresh_world two_rows)
        (Some ''missing/out.csv'')
     = (Inr (False, ''Error: The directory for '' @ [CHR 0x27] @ ''missing/out.csv'' @ [CHR 0x27]
                @ '' does not exist.''), fresh_world two_rows)
   \<and> fst (export_transactions calm_env (fresh_world extra_key_rows) (Some ''out.csv''))
     \<noteq> Inr (True, ''out.csv'')"
proof -
  have p: "resolve_file_path (closed_env FileNotFoundError) (Some ''missing/out.csv'')
      = ''missing/out.csv''"
    by (simp add: resolve_file_path_def)
  have o: "open_error (closed_env FileNotFoundError)
      (resolve_file_path (closed_env FileNotFoundError) (Some ''missing/out.csv''))
     = Some FileNotFoundError"
    by (simp add: closed_env_def)
  from export_never_raises
    [of "closed_env FileNotFoundError" "fresh_world two_rows" "Some ''missing/out.csv''"] o
  have "export_transactions (closed_env FileNotFoundError) (fresh_world two_rows)
        (Some ''missing/out.csv'')
     = (Inr (False, ''Error: The directory for '' @ [CHR 0x27]
          @ resolve_file_path (closed_env FileNotFoundError) (Some ''missing/out.csv'')
          @ [CHR 0x27] @ '' does not exist.''), fresh_world two_rows)"
    by blast
  then have a: "export_transactions (closed_env FileNotFoundError) (fresh_world two_rows)
        (Some ''missing/out.csv'')
     = (Inr (False, ''Error: The directory for '' @ [CHR 0x27] @ ''missing/out.csv'' @ [CHR 0x27]
                @ '' does not exist.''), fresh_world two_rows)"
    by (simp add: p)
  have "\<exists>r\<in>set (transactions (fresh_world extra_key_rows)).
      \<not> set (dict_keys r) \<subseteq> set (dict_keys (hd (transactions (fresh_world extra_key_rows))))"
    by (simp add: fresh_world_def extra_key_rows_def dict_keys_def)
  with export_never_raises [of calm_env "fresh_world extra_key_rows" "Some ''out.csv''"]
  have "\<exists>msg. fst (export_transactions calm_env (fresh_world extra_key_rows) (Some ''out.csv''))
      = Inr (False, msg)"
    by blast
  then have b: "fst (export_transactions calm_env (fresh_world extra_key_rows) (Some ''out.csv''))
     \<noteq> Inr (True, ''out.csv'')"
    by auto
  from o a b show ?thesis by simp
qed



text \<open>
  C4: for an empty list and a path that can be opened for writing, the call returns
  failure with the message \<open>No transactions to export\<close>.
\<close>

theorem export_empty_list:
  assumes "transactions w = []" and "open_error e (resolve_file_path e file_path) = None"
  shows "fst (export_transactions e w file_path) = Inr (False, ''No transactions to export'')"
  using assms by (simp add: export_transactions_def try_block_empty Let_def)

theorem export_empty_list_witness:
  "transactions (fresh_world []) = []
   \<and> open_error calm_env (resolve_file_path calm_env (Some ''out.csv'')) = None
   \<and> fst (export_transactions calm_env (fresh_world []) (Some ''out.csv''))
     = Inr (False, ''No transactions to export'')"
proof -
  have a: "transactions (fresh_world []) = []"
    by (simp add: fresh_world_def)
  have b: "open_error calm_env (resolve_file_path calm_env (Some ''out.csv'')) = None"
    by (simp add: calm_env_def)
  from export_empty_list [OF a b] a b show ?thesis by simp
qed

text \<open>
  C5: called without a file path, the function uses the name
  \<open>transactions_export_<YYYYMMDD_HHMMSS>.csv\<close> whose fifteen characters spell the current
  date and time; that name is the message of a successful return, and no other file is
  touched. The clock is taken to read a year of four digits, as the system clock behind
  \<open>datetime.now()\<close> does.
\<close>

theorem default_name_matches_pattern:
  assumes "valid_datetime (now e)" and "1000 \<le> year (now e)"
  shows "resolve_file_path e None = ''transactions_export_'' @ strftime (now e) @ ''.csv''
     \<and> matches_pattern (resolve_file_path e None)
     \<and> parse_timestamp (take 15 (drop 20 (resolve_file_path e None))) = now e
     \<and> (\<forall>msg. fst (export_transactions e w None) = Inr (True, msg) \<longrightarrow>
           msg = resolve_file_path e None)
     \<and> (\<forall>q. q \<noteq> resolve_file_path e None \<longrightarrow>
           files (snd (export_transactions e w None)) q = files w q)"
proof -
  have len: "length (strftime (now e)) = 15"
    by (simp add: strftime_valid [OF assms])
  have p: "resolve_file_path e None = ''transactions_export_'' @ strftime (now e) @ ''.csv''"
    by (simp add: resolve_file_path_def default_file_path_def)
  have ts: "take 15 (drop 20 (resolve_file_path e None)) = strftime (now e)"
    by (simp add: p len)
  have m: "matches_pattern (resolve_file_path e None)"
    unfolding matches_pattern_def ts
    by (simp add: p len is_timestamp_strftime [OF assms])
  have ret: "msg = resolve_file_path e None"
    if "fst (export_transactions e w None) = Inr (True, msg)" for msg
  proof -
    obtain r w' where t: "try_block e (resolve_file_path e None) w = (r, w')" by force
    show ?thesis
    proof (cases r)
      case (Inl x)
      with t that show ?thesis
        by (cases x) (simp_all add: export_transactions_def handle_def Let_def)
    next
      case (Inr b)
      with t that have "fst (try_block e (resolve_file_path e None) w) = Inr (True, msg)"
        by (simp add: export_transactions_def Let_def)
      from try_block_returns [OF this] show ?thesis by simp
    qed
  qed
  have other: "files (snd (export_transactions e w None)) q = files w q"
    if "q \<noteq> resolve_file_path e None" for q
    using that by (rule export_files_other)
  from p m ts parse_timestamp_strftime [OF assms] ret other show ?thesis by simp
qed

text \<open>The theorem on 5 March 2024 at 14:07:09.\<close>

theorem default_name_matches_pattern_witness:
  "valid_datetime (now calm_env)
   \<and> 1000 \<le> year (now calm_env)
   \<and> resolve_file_path calm_env None = ''transactions_export_20240305_140709.csv''
   \<and> matches_pattern ''transactions_export_20240305_140709.csv''
   \<and> parse_timestamp ''20240305_140709'' = sample_time
   \<and> fst (export_transactions calm_env (fresh_world two_rows) None)
     = Inr (True, ''transactions_export_20240305_140709.csv'')"
proof -
  have v: "valid_datetime (now calm_env)"
    by (simp add: calm_env_def sample_time_def valid_datetime_def)
  have y: "1000 \<le> year (now calm_env)"
    by (simp add: calm_env_def sample_time_def)
  have n: "resolve_file_path calm_env None = ''transactions_export_20240305_140709.csv''"
    by code_simp
  have s: "now calm_env = sample_time"
    by (simp add: calm_env_def)
  have r: "fst (export_transactions calm_env (fresh_world two_rows) None)
     = Inr (True, ''transactions_export_20240305_140709.csv'')"
    by code_simp
  note inst = default_name_matches_pattern [OF v y, of "fresh_world two_rows"]
  from inst have "matches_pattern (resolve_file_path calm_env None)"
    by blast
  then have m: "matches_pattern ''transactions_export_20240305_140709.csv''"
    by (simp only: n)
  from inst have "parse_timestamp (take 15 (drop 20 (resolve_file_path calm_env None)))
      = now calm_env"
    by blast
  then have "parse_timestamp (take 15 (drop 20 ''transactions_export_20240305_140709.csv''))
      = sample_time"
    by (simp only: n s)
  then have pt: "parse_timestamp ''20240305_140709'' = sample_time"
    by simp
  from v y n m pt r show ?thesis by blast
qed

text \<open>
  C7: the call does not modify its \<open>transactions\<close> argument: the list, with the records
  in it, is the same after the call as before, however the call ends.
\<close>

theorem export_keeps_transactions:
  "transactions (snd (export_transactions e w file_path)) = transactions w"
proof -
  obtain r w' where t: "try_block e (resolve_file_path e file_path) w = (r, w')" by force
  have "transactions w' = transactions w"
    using try_block_transactions [of e "resolve_file_path e file_path" w] t by simp
  with t show ?thesis
    by (cases r) (simp_all add: export_transactions_def Let_def)
qed

text \<open>
  C8: the file is opened before the list is tested. With an empty list, a path that can
  be opened is left as an empty file although the call returns the "no transactions"
  failure, and a path whose open raises \<open>FileNotFoundError\<close> gives the message of the
  missing directory instead.
\<close>

theorem export_opens_before_testing:
  assumes "transactions w = []"
  shows "(open_error e (resolve_file_path e file_path) = None \<longrightarrow>
            fst (export_transactions e w file_path) = Inr (False, ''No transactions to export'')
          \<and> files (snd (export_transactions e w file_path)) (resolve_file_path e file_path) = Some [])
       \<and> (open_error e (resolve_file_path e file_path) = Some FileNotFoundError \<longrightarrow>
            fst (export_transactions e w file_path) =
              Inr (False, ''Error: The directory for '' @ [CHR 0x27] @ resolve_file_path e file_path
                     @ [CHR 0x27] @ '' does not exist.'')
          \<and> snd (export_transactions e w file_path) = w)"
  using assms
  by (simp add: export_transactions_def try_block_empty try_block_open_raises handle_def Let_def)

text \<open>
  The theorem at a file that held \<open>old\<close> before the call and is empty after it, and at a
  directory that does not exist.
\<close>

theorem export_opens_before_testing_witness:
  "files ((fresh_world [])\<lparr>files := (files (fresh_world []))(''out.csv'' \<mapsto> ''old'')\<rparr>) ''out.csv''
     = Some ''old''
   \<and> fst (export_transactions calm_env
          ((fresh_world [])\<lparr>files := (files (fresh_world []))(''out.csv'' \<mapsto> ''old'')\<rparr>)
          (Some ''out.csv''))
     = Inr (False, ''No transactions to export'')
   \<and> files (snd (export_transactions calm_env
          ((fresh_world [])\<lparr>files := (files (fresh_world []))(''out.csv'' \<mapsto> ''old'')\<rparr>)
          (Some ''out.csv''))) ''out.csv''
     = Some []
   \<and> fst (export_transactions (closed_env FileNotFoundError) (fresh_world [])
          (Some ''missing/out.csv''))
     = Inr (False, ''Error: The directory for '' @ [CHR 0x27] @ ''missing/out.csv'' @ [CHR 0x27]
              @ '' does not exist.'')"
proof -
  let ?w = "(fresh_world [])\<lparr>files := (files (fresh_world []))(''out.csv'' \<mapsto> ''old'')\<rparr>"
  have t1: "transactions ?w = []" and t2: "transactions (fresh_world []) = []"
    by (simp_all add: fresh_world_def)
  have p1: "resolve_file_path calm_env (Some ''out.csv'') = ''out.csv''"
    and p2: "resolve_file_path (closed_env FileNotFoundError) (Some ''missing/out.csv'')
      = ''missing/out.csv''"
    by (simp_all add: resolve_file_path_def)
  have o1: "open_error calm_env (resolve_file_path calm_env (Some ''out.csv'')) = None"
    by (simp add: calm_env_def)
  have o2: "open_error (closed_env FileNotFoundError)
      (resolve_file_path (closed_env FileNotFoundError) (Some ''missing/out.csv''))
      = Some FileNotFoundError"
    by (simp add: closed_env_def)
  from export_opens_before_testing [OF t1, of calm_env "Some ''out.csv''"] o1
  have a: "fst (export_transactions calm_env ?w (Some ''out.csv''))
        = Inr (False, ''No transactions to export'')
      \<and> files (snd (export_transactions calm_env ?w (Some ''out.csv''))) ''out.csv'' = Some []"
    by (simp add: p1)
  from export_opens_before_testing [OF t2, of "closed_env FileNotFoundError" "Some ''missing/out.csv''"]
    o2
  have b: "fst (export_transactions (closed_env FileNotFoundError) (fresh_world [])
          (Some ''missing/out.csv''))
     = Inr (False, ''Error: The directory for '' @ [CHR 0x27] @ ''missing/out.csv'' @ [CHR 0x27]
              @ '' does not exist.'')"
    by (simp add: p2)
  from a b show ?thesis by simp
qed

text \<open>
  C9: the empty string as file path behaves exactly like no file path: the test is
  \<open>not file_path\<close>, so the timestamped name is generated and nothing is written to the
  empty path.
\<close>

theorem export_empty_path_is_default:
  "export_transactions e w (Some []) = export_transactions e w None
   \<and> resolve_file_path e (Some []) = ''transactions_export_'' @ strftime (now e) @ ''.csv''
   \<and> files (snd (export_transactions e w (Some []))) [] = files w []"
proof -
  have "resolve_file_path e (Some []) \<noteq> []"
    by (simp add: resolve_file_path_def default_file_path_def)
  then have "[] \<noteq> resolve_file_path e (Some [])" by simp
  then have "files (snd (export_transactions e w (Some []))) [] = files w []"
    by (rule export_files_other)
  then show ?thesis
    by (simp add: export_transactions_def resolve_file_path_def default_file_path_def)
qed

section \<open>Theorems about the settings panel\<close>

lemma toggle_theme_call_returns: "toggle_theme_call None None self = (None, toggle_theme self)"
  by (simp add: toggle_theme_call_def toggle_theme_def Let_def)

text \<open>
  C10, as amended: after any call of \<open>toggle_theme\<close>, whether it returns or
  \<open>settings.save()\<close> or the refresh callback raises, the theme variable and the theme of
  the settings object are \<open>Light\<close> or \<open>Dark\<close>, whatever the value before: the value
  \<open>Light\<close> becomes \<open>Dark\<close>, and every other value, \<open>light\<close> and the empty string
  included, becomes \<open>Light\<close>. The saved row holds the same value when \<open>save()\<close> returns,
  and keeps the value it had when \<open>save()\<close> raises.
\<close>

theorem toggle_theme_range:
  "theme_var (snd (toggle_theme_call save_error callback_error self))
     = (if theme_var self = ''Light'' then ''Dark'' else ''Light'')
   \<and> settings_theme (snd (toggle_theme_call save_error callback_error self))
     = theme_var (snd (toggle_theme_call save_error callback_error self))
   \<and> (theme_var (snd (toggle_theme_call save_error callback_error self)) = ''Light''
      \<or> theme_var (snd (toggle_theme_call save_error callback_error self)) = ''Dark'')
   \<and> (save_error = None \<longrightarrow>
        saved_theme (snd (toggle_theme_call save_error callback_error self))
          = theme_var (snd (toggle_theme_call save_error callback_error self)))
   \<and> (save_error \<noteq> None \<longrightarrow>
        saved_theme (snd (toggle_theme_call save_error callback_error self)) = saved_theme self
      \<and> fst (toggle_theme_call save_error callback_error self) = save_error)
   \<and> theme_var (snd (toggle_theme_call save_error callback_error (self\<lparr>theme_var := ''light''\<rparr>)))
     = ''Light''
   \<and> theme_var (snd (toggle_theme_call save_error callback_error (self\<lparr>theme_var := ''''\<rparr>)))
     = ''Light''"
  by (cases save_error; cases callback_error) (simp_all add: toggle_theme_call_def Let_def)

text \<open>
  The theorem at a panel opened on a row \<open>light\<close>, in a call that returns and in a call
  whose \<open>save()\<close> raises.
\<close>

theorem toggle_theme_range_witness:
  "theme_var (snd (toggle_theme_call None None (new_panel ''light'' True))) = ''Light''
   \<and> saved_theme (snd (toggle_theme_call None None (new_panel ''light'' True))) = ''Light''
   \<and> theme_var (snd (toggle_theme_call
        (Some (OtherException ''OperationalError'' ''database is locked'')) None
        (new_panel ''light'' True))) = ''Light''
   \<and> saved_theme (snd (toggle_theme_call
        (Some (OtherException ''OperationalError'' ''database is locked'')) None
        (new_panel ''light'' True))) = ''light''"
proof -
  let ?x = "OtherException ''OperationalError'' ''database is locked''"
  have v: "theme_var (new_panel ''light'' True) = ''light''"
    and s: "saved_theme (new_panel ''light'' True) = ''light''"
    by (simp_all add: new_panel_def)
  have n: "(None :: pyexc option) = None" and m: "Some ?x \<noteq> None"
    by simp_all
  from toggle_theme_range [where save_error = None and callback_error = None
      and self = "new_panel ''light'' True"] n v
  have a: "theme_var (snd (toggle_theme_call None None (new_panel ''light'' True))) = ''Light''
      \<and> saved_theme (snd (toggle_theme_call None None (new_panel ''light'' True))) = ''Light''"
    by simp
  from toggle_theme_range [where save_error = "Some ?x" and callback_error = None
      and self = "new_panel ''light'' True"] m v s
  have b: "theme_var (snd (toggle_theme_call (Some ?x) None (new_panel ''light'' True))) = ''Light''
      \<and> saved_theme (snd (toggle_theme_call (Some ?x) None (new_panel ''light'' True))) = ''light''"
    by simp
  from a b show ?thesis by simp
qed

text \<open>
  C10 as stated fails for the saved row: on a panel opened on a row \<open>light\<close>, a call
  whose \<open>save()\<close> raises leaves the row at \<open>light\<close>, which is neither \<open>Light\<close> nor
  \<open>Dark\<close>.
\<close>

theorem toggle_theme_save_raises_counterexample:
  "fst (toggle_theme_call (Some (OtherException ''OperationalError'' ''database is locked'')) None
         (new_panel ''light'' True))
     = Some (OtherException ''OperationalError'' ''database is locked'')
   \<and> saved_theme (snd (toggle_theme_call
        (Some (OtherException ''OperationalError'' ''database is locked'')) None
        (new_panel ''light'' True))) = ''light''
   \<and> saved_theme (snd (toggle_theme_call
        (Some (OtherException ''OperationalError'' ''database is locked'')) None
        (new_panel ''light'' True))) \<noteq> ''Light''
   \<and> saved_theme (snd (toggle_theme_call
        (Some (OtherException ''OperationalError'' ''database is locked'')) None
        (new_panel ''light'' True))) \<noteq> ''Dark''"
  by (simp add: toggle_theme_call_def new_panel_def Let_def)

text \<open>
  C6: from a current theme of \<open>Light\<close> or \<open>Dark\<close>, \<open>toggle_theme\<close> switches to the other
  of the two and stores that value in the settings record and in its saved row; a second
  toggle brings the first theme back.
\<close>

theorem toggle_theme_involution:
  assumes "theme_var self = ''Light'' \<or> theme_var self = ''Dark''"
  shows "theme_var (toggle_theme self) = (if theme_var self = ''Light'' then ''Dark'' else ''Light'')
     \<and> theme_var (toggle_theme self) \<noteq> theme_var self
     \<and> (theme_var (toggle_theme self) = ''Light'' \<or> theme_var (toggle_theme self) = ''Dark'')
     \<and> settings_theme (toggle_theme self) = theme_var (toggle_theme self)
     \<and> saved_theme (toggle_theme self) = theme_var (toggle_theme self)
     \<and> theme_var (toggle_theme (toggle_theme self)) = theme_var self
     \<and> settings_theme (toggle_theme (toggle_theme self)) = theme_var self
     \<and> saved_theme (toggle_theme (toggle_theme self)) = theme_var self"
  using assms by (auto simp: toggle_theme_def Let_def)

text \<open>The theorem at a panel opened on a \<open>Dark\<close> settings row.\<close>

theorem toggle_theme_involution_witness:
  "theme_var (new_panel ''Dark'' True) = ''Dark''
   \<and> theme_var (toggle_theme (new_panel ''Dark'' True)) = ''Light''
   \<and> saved_theme (toggle_theme (new_panel ''Dark'' True)) = ''Light''
   \<and> theme_var (toggle_theme (toggle_theme (new_panel ''Dark'' True))) = ''Dark''
   \<and> saved_theme (toggle_theme (toggle_theme (new_panel ''Dark'' True))) = ''Dark''"
proof -
  have d: "theme_var (new_panel ''Dark'' True) = ''Dark''"
    by (simp add: new_panel_def)
  then have h: "theme_var (new_panel ''Dark'' True) = ''Light''
      \<or> theme_var (new_panel ''Dark'' True) = ''Dark''"
    by simp
  from toggle_theme_involution [OF h] d show ?thesis by simp
qed

end
